theory Spec2Isabelle
  imports
    Main
    "HOL-Library.Char_ord"
    "HOL-Library.List_Lexorder"
    "HOL-Library.AList"
    "HOL-Library.Multiset"
    "HOL-Library.Sublist"
begin

section \<open>JavaScript values\<close>

text \<open>
  The program is a Node.js command line tool. Its data are plain JavaScript values:
  what \<^verbatim>\<open>JSON.parse\<close> returns, what the hardware provider returns, and the object
  literals of the program itself. A number is an integer or \<^verbatim>\<open>NaN\<close> (the values that
  \<^verbatim>\<open>Math.round\<close>, \<^verbatim>\<open>parseInt\<close> and the integer fields of a snapshot take; other
  doubles are outside this model). A string is a list of code units, each below 256.
  An object is the list of its own enumerable properties in the order in which
  \<^verbatim>\<open>Object.keys\<close> and \<^verbatim>\<open>JSON.stringify\<close> enumerate them.
\<close>

datatype number = Fin int | NaN

datatype jsval =
    JUndefined
  | JNull
  | JBool bool
  | JNum number
  | JStr string
  | JArr "jsval list"
  | JObj "(string \<times> jsval) list"

type_synonym props = "(string \<times> jsval) list"

text \<open>Exceptions of the runtime and of the program, as values.\<close>

datatype error =
    TypeError
  | KeyError
  | FormatError
  | SyntaxError
  | RangeError
  | Error string

subsection \<open>Decimal numerals and string conversion\<close>

definition digit_char :: "int \<Rightarrow> char" where
  "digit_char n = char_of (48 + n)"

text \<open>The decimal digits of a number that is not negative.\<close>

function dec_digits :: "int \<Rightarrow> string" where
  "dec_digits n =
     (if n < 10 then [digit_char n] else dec_digits (n div 10) @ [digit_char (n mod 10)])"
  by pat_completeness auto
termination
  by (relation "measure nat") auto

declare dec_digits.simps [simp del]

definition dec_int :: "int \<Rightarrow> string" where
  "dec_int i = (if i < 0 then CHR ''-'' # dec_digits (- i) else dec_digits i)"

fun join_with :: "string \<Rightarrow> string list \<Rightarrow> string" where
  "join_with sep [] = []"
| "join_with sep [x] = x"
| "join_with sep (x # y # ys) = x @ sep @ join_with sep (y # ys)"

text \<open>
  \<^verbatim>\<open>String(x)\<close>, which is also what a template literal and the default comparison of
  \<^verbatim>\<open>Array.prototype.sort\<close> apply. An array is joined with commas, \<^verbatim>\<open>null\<close> and
  \<^verbatim>\<open>undefined\<close> elements giving the empty string.
\<close>

fun to_string :: "jsval \<Rightarrow> string" where
  "to_string JUndefined = ''undefined''"
| "to_string JNull = ''null''"
| "to_string (JBool b) = (if b then ''true'' else ''false'')"
| "to_string (JNum (Fin i)) = dec_int i"
| "to_string (JNum NaN) = ''NaN''"
| "to_string (JStr s) = s"
| "to_string (JArr xs) =
     join_with '',''
       (map (\<lambda>x. if x = JNull \<or> x = JUndefined then [] else to_string x) xs)"
| "to_string (JObj ps) = ''[object Object]''"

text \<open>\<^verbatim>\<open>typeof x === "object"\<close>: true of \<^verbatim>\<open>null\<close>, of arrays and of objects.\<close>

fun typeof_object :: "jsval \<Rightarrow> bool" where
  "typeof_object JNull = True"
| "typeof_object (JArr xs) = True"
| "typeof_object (JObj ps) = True"
| "typeof_object v = False"

text \<open>Truthiness, as \<^verbatim>\<open>!x\<close>, \<^verbatim>\<open>x && y\<close> and \<^verbatim>\<open>x || y\<close> test it.\<close>

fun truthy :: "jsval \<Rightarrow> bool" where
  "truthy JUndefined = False"
| "truthy JNull = False"
| "truthy (JBool b) = b"
| "truthy (JNum (Fin i)) = (i \<noteq> 0)"
| "truthy (JNum NaN) = False"
| "truthy (JStr s) = (s \<noteq> [])"
| "truthy (JArr xs) = True"
| "truthy (JObj ps) = True"

definition js_or :: "jsval \<Rightarrow> jsval \<Rightarrow> jsval" where
  "js_or a b = (if truthy a then a else b)"

subsection \<open>Properties\<close>

text \<open>
  Reading a property \<^verbatim>\<open>x.name\<close> of a value that is neither \<^verbatim>\<open>null\<close> nor
  \<^verbatim>\<open>undefined\<close>. The program reads only the field names of an envelope and of a
  snapshot; none of them is inherited from a prototype, so an object answers with its
  own property or \<^verbatim>\<open>undefined\<close>, and every other value with \<^verbatim>\<open>undefined\<close>.
\<close>

definition lookup :: "props \<Rightarrow> string \<Rightarrow> jsval" where
  "lookup ps k = (case map_of ps k of Some v \<Rightarrow> v | None \<Rightarrow> JUndefined)"

fun get_prop :: "jsval \<Rightarrow> string \<Rightarrow> jsval" where
  "get_prop (JObj ps) name = lookup ps name"
| "get_prop v name = JUndefined"

text \<open>The same read where nothing guards it: on \<^verbatim>\<open>null\<close> and \<^verbatim>\<open>undefined\<close> it throws.\<close>

definition prop_chk :: "jsval \<Rightarrow> string \<Rightarrow> error + jsval" where
  "prop_chk v name = (if v = JNull \<or> v = JUndefined then Inl TypeError else Inr (get_prop v name))"

text \<open>\<^verbatim>\<open>a && a.name\<close>\<close>

definition and_prop :: "jsval \<Rightarrow> string \<Rightarrow> jsval" where
  "and_prop a name = (if truthy a then get_prop a name else a)"

text \<open>
  An array index is the canonical decimal numeral of an integer from 0 to
  \<open>2\<^sup>3\<^sup>2 - 2\<close>. An object enumerates its array-index keys first, in ascending
  numeric order, and then its other string keys in the order of their creation.
\<close>

definition is_digit :: "char \<Rightarrow> bool" where
  "is_digit c \<longleftrightarrow> CHR ''0'' \<le> c \<and> c \<le> CHR ''9''"

definition digits_val :: "string \<Rightarrow> int" where
  "digits_val s = foldl (\<lambda>n c. 10 * n + (of_char c - 48)) 0 s"

definition is_array_index :: "string \<Rightarrow> bool" where
  "is_array_index k \<longleftrightarrow>
     k \<noteq> [] \<and> list_all is_digit k \<and> (k = ''0'' \<or> hd k \<noteq> CHR ''0'') \<and>
     digits_val k \<le> 4294967294"

fun insert_index :: "string \<Rightarrow> jsval \<Rightarrow> props \<Rightarrow> props" where
  "insert_index k v [] = [(k, v)]"
| "insert_index k v ((k', v') # ps) =
     (if is_array_index k' \<and> digits_val k' < digits_val k
      then (k', v') # insert_index k v ps
      else (k, v) # (k', v') # ps)"

text \<open>
  The assignment \<^verbatim>\<open>out[k] = v\<close> on a plain object. The key \<^verbatim>\<open>__proto__\<close> reaches the
  setter inherited from \<^verbatim>\<open>Object.prototype\<close> and creates no own property. An existing
  property keeps its place; a new array index is placed among the indices; any other
  new key goes last.
\<close>

definition put :: "string \<Rightarrow> jsval \<Rightarrow> props \<Rightarrow> props" where
  "put k v ps =
     (if k = ''__proto__'' then ps
      else if k \<in> fst ` set ps then AList.update k v ps
      else if is_array_index k then insert_index k v ps
      else ps @ [(k, v)])"

section \<open>The canonical encoder\<close>

text \<open>
  \<^verbatim>\<open>
  function canonicalize(obj) {
    if (obj === null || typeof obj !== "object") return obj;
    if (Array.isArray(obj)) return obj.map(canonicalize);
    const out = {};
    Object.keys(obj).sort().forEach((k) => { out[k] = canonicalize(obj[k]); });
    return out;
  }
  \<close>
  The default \<^verbatim>\<open>sort\<close> of an array of strings compares them code unit by code unit.
\<close>

lemma lookup_size:
  "k \<in> fst ` set ps \<Longrightarrow> size (lookup ps k) < Suc (size_list (size_prod (\<lambda>x. 0) size) ps)"
proof (induction ps)
  case Nil
  then show ?case by simp
next
  case (Cons p ps)
  show ?case
  proof (cases "fst p = k")
    case True
    then show ?thesis by (cases p) (simp add: lookup_def)
  next
    case False
    with Cons.prems have "k \<in> fst ` set ps" by auto
    from Cons.IH [OF this] False show ?thesis
      by (cases p) (simp add: lookup_def)
  qed
qed

function canonicalize :: "jsval \<Rightarrow> jsval" where
  "canonicalize JUndefined = JUndefined"
| "canonicalize JNull = JNull"
| "canonicalize (JBool b) = JBool b"
| "canonicalize (JNum n) = JNum n"
| "canonicalize (JStr s) = JStr s"
| "canonicalize (JArr xs) = JArr (map canonicalize xs)"
| "canonicalize (JObj ps) =
     JObj (foldl (\<lambda>out k. put k (canonicalize (lookup ps k)) out) [] (sort (map fst ps)))"
  by pat_completeness auto
termination
proof (relation "measure size")
  show "wf (measure size)" by simp
next
  fix xs :: "jsval list" and x
  assume "x \<in> set xs"
  then show "(x, JArr xs) \<in> measure size"
    by (induction xs) auto
next
  fix ps :: props and out :: props and k
  assume "k \<in> set (sort (map fst ps))"
  then have "k \<in> fst ` set ps" by simp
  then show "(lookup ps k, JObj ps) \<in> measure size"
    using lookup_size [of k ps] by simp
qed

subsection \<open>Serialization\<close>

text \<open>
  \<^verbatim>\<open>JSON.stringify(value)\<close> without indentation. At the top level \<^verbatim>\<open>undefined\<close> has no
  text (the result is \<^verbatim>\<open>undefined\<close>, here \<open>None\<close>); inside an array it is written
  \<^verbatim>\<open>null\<close>, and a property whose value is \<^verbatim>\<open>undefined\<close> is left out.
\<close>

definition hex_digit :: "int \<Rightarrow> char" where
  "hex_digit n = (if n < 10 then char_of (48 + n) else char_of (87 + n))"

definition escape_char :: "char \<Rightarrow> string" where
  "escape_char c =
     (if c = CHR 0x22 then [CHR 0x5C, CHR 0x22]
      else if c = CHR 0x5C then [CHR 0x5C, CHR 0x5C]
      else if c = CHR 0x08 then [CHR 0x5C, CHR ''b'']
      else if c = CHR 0x0C then [CHR 0x5C, CHR ''f'']
      else if c = CHR 0x0A then [CHR 0x5C, CHR ''n'']
      else if c = CHR 0x0D then [CHR 0x5C, CHR ''r'']
      else if c = CHR 0x09 then [CHR 0x5C, CHR ''t'']
      else if (of_char c :: int) < 32
        then [CHR 0x5C, CHR ''u'', CHR ''0'', CHR ''0'',
              hex_digit (of_char c div 16), hex_digit (of_char c mod 16)]
      else [c])"

definition quote :: "string \<Rightarrow> string" where
  "quote s = CHR 0x22 # concat (map escape_char s) @ [CHR 0x22]"

fun stringify :: "jsval \<Rightarrow> string option" where
  "stringify JUndefined = None"
| "stringify JNull = Some ''null''"
| "stringify (JBool b) = Some (if b then ''true'' else ''false'')"
| "stringify (JNum (Fin i)) = Some (dec_int i)"
| "stringify (JNum NaN) = Some ''null''"
| "stringify (JStr s) = Some (quote s)"
| "stringify (JArr xs) =
     Some (''['' @
       join_with '','' (map (\<lambda>x. case stringify x of None \<Rightarrow> ''null'' | Some s \<Rightarrow> s) xs)
       @ '']'')"
| "stringify (JObj ps) =
     Some (''{'' @
       join_with '',''
         (concat (map (\<lambda>(k, v). case stringify v of None \<Rightarrow> [] | Some s \<Rightarrow> [quote k @ '':'' @ s]) ps))
       @ ''}'')"

text \<open>\<^verbatim>\<open>Buffer.from(text, "utf8")\<close>: the UTF-8 bytes of a string of code units below 256.\<close>

definition utf8_char :: "char \<Rightarrow> int list" where
  "utf8_char c =
     (let n = (of_char c :: int)
      in if n < 128 then [n] else [192 + n div 64, 128 + n mod 64])"

definition utf8 :: "string \<Rightarrow> int list" where
  "utf8 s = concat (map utf8_char s)"

subsection \<open>Semantic equality of structured values\<close>




section \<open>The hardware comparator\<close>

text \<open>
  The inner function \<^verbatim>\<open>check\<close> appends to the list \<^verbatim>\<open>mismatches\<close> of its enclosing
  call; here it takes the list and returns it.
  \<^verbatim>\<open>
  function check(label, a, b) {
    if ((a === undefined || a === null) && (b === undefined || b === null)) return;
    if (typeof a === "object" || typeof b === "object") {
      if (JSON.stringify(a) !== JSON.stringify(b)) mismatches.push(`${label} changed`);
    } else if (String(a) !== String(b)) {
      mismatches.push(`${label}: saved=${a} current=${b}`);
    }
  }
  \<close>
\<close>

definition check :: "string \<Rightarrow> jsval \<Rightarrow> jsval \<Rightarrow> string list \<Rightarrow> string list" where
  "check label a b mismatches =
     (if (a = JUndefined \<or> a = JNull) \<and> (b = JUndefined \<or> b = JNull) then mismatches
      else if typeof_object a \<or> typeof_object b then
        (if stringify a \<noteq> stringify b then mismatches @ [label @ '' changed'']
         else mismatches)
      else if to_string a \<noteq> to_string b then
        mismatches @ [label @ '': saved='' @ to_string a @ '' current='' @ to_string b]
      else mismatches)"

text \<open>
  The default \<^verbatim>\<open>sort()\<close> of an array: \<^verbatim>\<open>undefined\<close> elements go last, the others are
  ordered by their strings, and elements with equal strings keep their order.
\<close>

definition js_sort :: "jsval list \<Rightarrow> jsval list" where
  "js_sort xs =
     sort_key to_string (filter (\<lambda>x. x \<noteq> JUndefined) xs) @ filter (\<lambda>x. x = JUndefined) xs"

text \<open>\<^verbatim>\<open>join(",")\<close>: \<^verbatim>\<open>null\<close> and \<^verbatim>\<open>undefined\<close> elements give the empty string.\<close>

definition js_join :: "jsval list \<Rightarrow> string" where
  "js_join xs =
     join_with '','' (map (\<lambda>x. if x = JNull \<or> x = JUndefined then [] else to_string x) xs)"

text \<open>\<^verbatim>\<open>.map((n) => n.mac)\<close>: reading \<^verbatim>\<open>mac\<close> of a \<^verbatim>\<open>null\<close> element throws.\<close>

fun map_mac :: "jsval list \<Rightarrow> error + jsval list" where
  "map_mac [] = Inr []"
| "map_mac (n # ns) =
     (case prop_chk n ''mac'' of
        Inl e \<Rightarrow> Inl e
      | Inr m \<Rightarrow> (case map_mac ns of Inl e \<Rightarrow> Inl e | Inr ms \<Rightarrow> Inr (m # ms)))"

text \<open>
  \<^verbatim>\<open>(snapshot.net || []).map((n) => n.mac).sort().join(",")\<close>. A \<^verbatim>\<open>net\<close> that is truthy
  and not an array has no \<^verbatim>\<open>map\<close>, and the call throws.
\<close>

definition macs :: "jsval \<Rightarrow> error + string" where
  "macs snapshot =
     (case js_or (get_prop snapshot ''net'') (JArr []) of
        JArr ns \<Rightarrow>
          (case map_mac ns of Inl e \<Rightarrow> Inl e | Inr ms \<Rightarrow> Inr (js_join (js_sort ms)))
      | _ \<Rightarrow> Inl TypeError)"

text \<open>
  \<^verbatim>\<open>
  function compareHardware(saved, current) {
    const mismatches = [];
    if (!saved || !current) return ["Missing snapshot or current data"];
    check("machineId", saved.machineId, current.machineId);
    check("cpu.brand", saved.cpu && saved.cpu.brand, current.cpu && current.cpu.brand);
    check("cpu.physicalCores", saved.cpu && saved.cpu.physicalCores,
          current.cpu && current.cpu.physicalCores);
    check("bios.serial", saved.bios && saved.bios.serial, current.bios && current.bios.serial);
    check("baseboard.serial", saved.baseboard && saved.baseboard.serial,
          current.baseboard && current.baseboard.serial);
    check("disk.serial", saved.disk && saved.disk.serial,
          current.disk && current.disk && current.disk.serial);
    const sMacs = (saved.net || []).map((n) => n.mac).sort().join(",");
    const cMacs = (current.net || []).map((n) => n.mac).sort().join(",");
    if (sMacs !== cMacs) mismatches.push("Network interfaces (MACs) changed");
    check("memoryGB", saved.memoryGB, current.memoryGB);
    return mismatches;
  }
  \<close>
\<close>

definition compareHardware :: "jsval \<Rightarrow> jsval \<Rightarrow> error + string list" where
  "compareHardware saved current =
     (if \<not> truthy saved \<or> \<not> truthy current then Inr [''Missing snapshot or current data'']
      else
        let m1 = check ''machineId''
                   (get_prop saved ''machineId'') (get_prop current ''machineId'') [];
            m2 = check ''cpu.brand''
                   (and_prop (get_prop saved ''cpu'') ''brand'')
                   (and_prop (get_prop current ''cpu'') ''brand'') m1;
            m3 = check ''cpu.physicalCores''
                   (and_prop (get_prop saved ''cpu'') ''physicalCores'')
                   (and_prop (get_prop current ''cpu'') ''physicalCores'') m2;
            m4 = check ''bios.serial''
                   (and_prop (get_prop saved ''bios'') ''serial'')
                   (and_prop (get_prop current ''bios'') ''serial'') m3;
            m5 = check ''baseboard.serial''
                   (and_prop (get_prop saved ''baseboard'') ''serial'')
                   (and_prop (get_prop current ''baseboard'') ''serial'') m4;
            m6 = check ''disk.serial''
                   (and_prop (get_prop saved ''disk'') ''serial'')
                   (and_prop (get_prop current ''disk'') ''serial'') m5
        in case macs saved of
             Inl e \<Rightarrow> Inl e
           | Inr sMacs \<Rightarrow>
               (case macs current of
                  Inl e \<Rightarrow> Inl e
                | Inr cMacs \<Rightarrow>
                    let m7 = (if sMacs \<noteq> cMacs
                              then m6 @ [''Network interfaces (MACs) changed''] else m6)
                    in Inr (check ''memoryGB''
                              (get_prop saved ''memoryGB'') (get_prop current ''memoryGB'') m7)))"

subsection \<open>Vocabulary of the comparison policy\<close>


definition is_object :: "jsval \<Rightarrow> bool" where
  "is_object v = (case v of JObj ps \<Rightarrow> True | _ \<Rightarrow> False)"

text \<open>
  A snapshot is an object; its list of network interfaces, when it has one, is an array
  of objects. Every other field may be missing or of any value.
\<close>

definition snapshot :: "jsval \<Rightarrow> bool" where
  "snapshot s \<longleftrightarrow>
     is_object s \<and>
     (case get_prop s ''net'' of
        JArr ns \<Rightarrow> list_all is_object ns
      | JUndefined \<Rightarrow> True
      | JNull \<Rightarrow> True
      | _ \<Rightarrow> False)"










section \<open>The signer and the verifier\<close>

text \<open>
  The cryptography and the file system are the runtime's, not the program's. They are
  taken as parameters: how a PEM text is parsed into a key, whether a signature is the
  SHA-256 signature of a message under a public key, how a message is signed with a
  private key, and the decoder behind \<^verbatim>\<open>Buffer.from(text, "base64")\<close>. That decoder
  accepts every text: it skips the characters outside the base64 alphabets and stops at
  the first padding character, and it never throws. For a value that is no text,
  \<^verbatim>\<open>Buffer.from\<close> throws or builds a buffer from an array-like value; this is the
  parameter \<open>buffer_from_other\<close>.
\<close>

type_synonym bytes = "int list"

record ('pub, 'priv) crypto =
  parse_public_key :: "string \<Rightarrow> 'pub option"
  parse_private_key :: "string \<Rightarrow> 'priv option"
  signature_ok :: "'pub \<Rightarrow> bytes \<Rightarrow> bytes \<Rightarrow> bool"
  make_signature :: "'priv \<Rightarrow> bytes \<Rightarrow> bytes"
  base64_decode :: "string \<Rightarrow> bytes"
  base64_encode :: "bytes \<Rightarrow> string"
  buffer_from_other :: "jsval \<Rightarrow> error + bytes"

text \<open>
  \<^verbatim>\<open>
  function signPayload(privateKeyPem, payloadBuffer) {
    const sign = crypto.createSign("SHA256");
    sign.update(payloadBuffer);
    sign.end();
    return sign.sign(privateKeyPem).toString("base64");
  }
  \<close>
\<close>

definition signPayload :: "('pub, 'priv) crypto \<Rightarrow> string \<Rightarrow> bytes \<Rightarrow> error + string" where
  "signPayload cr privateKeyPem payloadBuffer =
     (case parse_private_key cr privateKeyPem of
        None \<Rightarrow> Inl KeyError
      | Some key \<Rightarrow> Inr (base64_encode cr (make_signature cr key payloadBuffer)))"

text \<open>
  \<^verbatim>\<open>
  function verifySignature(publicKeyPem, payloadBuffer, signatureB64) {
    const verify = crypto.createVerify("SHA256");
    verify.update(payloadBuffer);
    verify.end();
    return verify.verify(publicKeyPem, Buffer.from(signatureB64, "base64"));
  }
  \<close>
  The signature is decoded first, as an argument of the call; the key is parsed inside
  \<^verbatim>\<open>verify.verify\<close>, which throws when it cannot.
\<close>

definition verifySignature ::
  "('pub, 'priv) crypto \<Rightarrow> string \<Rightarrow> bytes \<Rightarrow> jsval \<Rightarrow> error + bool" where
  "verifySignature cr publicKeyPem payloadBuffer signatureB64 =
     (case (case signatureB64 of
              JStr text \<Rightarrow> Inr (base64_decode cr text)
            | v \<Rightarrow> buffer_from_other cr v) of
        Inl e \<Rightarrow> Inl e
      | Inr signature \<Rightarrow>
          (case parse_public_key cr publicKeyPem of
             None \<Rightarrow> Inl KeyError
           | Some key \<Rightarrow> Inr (signature_ok cr key payloadBuffer signature)))"

section \<open>The commands\<close>

text \<open>
  What a command does to the world is what it prints, the file it writes and the code
  it exits with. The file system, the environment, the hardware provider, the clock and
  the time zone are parameters. The time zone is the offset from UTC, in milliseconds,
  that holds at an instant (\<open>tz_offset_of_utc\<close>) and the offset by which a local time
  is read (\<open>tz_offset_of_local\<close>). \<open>ensureDir\<close> and \<open>writeFile\<close> say whether
  creating the directory of a path and writing the file at a path throw.
  \<open>parse_other_date\<close> is \<^verbatim>\<open>Date.parse\<close> on the texts that are no calendar date of
  the form \<^verbatim>\<open>YYYY-MM-DD\<close>.
\<close>

record outcome =
  stdout :: "string list"
  stderr :: "string list"
  exit_code :: int
  written :: "(string \<times> jsval) option"

record ('pub, 'priv) env =
  crypt :: "('pub, 'priv) crypto"
  existsSync :: "string \<Rightarrow> bool"
  readJSON :: "string \<Rightarrow> error + jsval"
  readFileSync :: "string \<Rightarrow> string"
  defaultFingerprintPath :: string
  defaultPublicKeyPath :: string
  env_PC_FP_PUBLIC_KEY :: "string option"
  collectHardwareSnapshot :: "error + jsval"
  message :: "error \<Rightarrow> string"
  ensureDir :: "string \<Rightarrow> error option"
  writeFile :: "string \<Rightarrow> error option"
  username :: string
  now :: int
  tz_offset_of_utc :: "int \<Rightarrow> int"
  tz_offset_of_local :: "int \<Rightarrow> int"
  parse_other_date :: "string \<Rightarrow> int option"

text \<open>\<^verbatim>\<open>a || b\<close> on an optional text: a missing and an empty text are falsy.\<close>

definition or_text :: "string option \<Rightarrow> string \<Rightarrow> string" where
  "or_text a b = (case a of None \<Rightarrow> b | Some t \<Rightarrow> if t = [] then b else t)"

text \<open>
  \<^verbatim>\<open>
  function readPublicKey(customPath) {
    const guess = customPath || process.env.PC_FP_PUBLIC_KEY || defaultPublicKeyPath();
    if (!fs.existsSync(guess)) throw new Error("Public key not found at " + guess);
    return fs.readFileSync(guess, "utf8");
  }
  \<close>
\<close>

definition readPublicKey :: "('pub, 'priv) env \<Rightarrow> string option \<Rightarrow> error + string" where
  "readPublicKey e customPath =
     (let guess = or_text customPath (or_text (env_PC_FP_PUBLIC_KEY e) (defaultPublicKeyPath e))
      in if \<not> existsSync e guess then Inl (Error (''Public key not found at '' @ guess))
         else Inr (readFileSync e guess))"

text \<open>What \<^verbatim>\<open>console.log\<close> prints for the result of \<^verbatim>\<open>JSON.stringify\<close>.\<close>

definition json_text :: "jsval \<Rightarrow> string" where
  "json_text v = (case stringify v of Some t \<Rightarrow> t | None \<Rightarrow> ''undefined'')"

text \<open>
  \<^verbatim>\<open>Buffer.from(payloadJson, "utf8")\<close>, where \<^verbatim>\<open>payloadJson\<close> is the result of
  \<^verbatim>\<open>JSON.stringify\<close>: it throws when that result is \<^verbatim>\<open>undefined\<close>.
\<close>

definition buffer_from_utf8 :: "string option \<Rightarrow> error + bytes" where
  "buffer_from_utf8 t = (case t of None \<Rightarrow> Inl TypeError | Some text \<Rightarrow> Inr (utf8 text))"

text \<open>
  The bytes whose signature \<^verbatim>\<open>verify\<close> checks:
  \<^verbatim>\<open>Buffer.from(JSON.stringify(envelope.payload), "utf8")\<close>.
\<close>

definition verify_payload_buffer :: "jsval \<Rightarrow> error + bytes" where
  "verify_payload_buffer envelope =
     (case prop_chk envelope ''payload'' of
        Inl e \<Rightarrow> Inl e
      | Inr payload \<Rightarrow> buffer_from_utf8 (stringify payload))"

record verify_args =
  arg_path :: "string option"
  arg_pubKey :: "string option"
  arg_json :: bool

text \<open>The report of \<^verbatim>\<open>verify\<close>, as the two branches of the command print it.\<close>

definition bool_text :: "bool \<Rightarrow> string" where
  "bool_text b = (if b then ''true'' else ''false'')"

definition report_json :: "bool \<Rightarrow> string list \<Rightarrow> jsval \<Rightarrow> string \<Rightarrow> string list" where
  "report_json ok diffs payload p =
     [json_text (JObj
        [(''signatureValid'', JBool ok),
         (''mismatches'', JArr (map JStr diffs)),
         (''mismatchesCount'', JNum (Fin (int (length diffs)))),
         (''buyer'', js_or (get_prop payload ''buyer'') JNull),
         (''path'', JStr p)])]"

definition report_buyer :: "jsval \<Rightarrow> string list" where
  "report_buyer payload =
     (let buyer = js_or (get_prop payload ''buyer'') (JObj [])
      in [CHR 0x0A # ''Buyer: '' @ to_string (js_or (get_prop buyer ''name'') (JStr ''N/A'')),
          ''Purchase date: '' @ to_string (js_or (get_prop buyer ''purchaseDate'') (JStr ''N/A'')),
          ''Warranty expires: ''
            @ to_string (js_or (get_prop buyer ''warrantyExpires'') (JStr ''N/A''))])"

definition report_diffs :: "string list \<Rightarrow> string list" where
  "report_diffs diffs =
     [CHR 0x0A # ''Hardware comparison summary:'',
      ''Total mismatches: '' @ dec_int (int (length diffs))]
     @ (if diffs \<noteq> [] then map (\<lambda>d. ''- '' @ d) diffs else [''No mismatches detected.''])"

definition report_text :: "bool \<Rightarrow> string list \<Rightarrow> jsval \<Rightarrow> string \<Rightarrow> string list" where
  "report_text ok diffs payload p =
     [''Signature valid: '' @ bool_text ok]
     @ report_diffs diffs @ report_buyer payload @ [CHR 0x0A # ''Path: '' @ p]"

text \<open>
  The body of \<^verbatim>\<open>mainVerify\<close> inside its \<^verbatim>\<open>try\<close>, once the fingerprint file is known
  to exist. Every exception leaves through \<open>Inl\<close>. Nothing is printed before the
  comparison has returned.
  \<^verbatim>\<open>
  const envelope = await fs.readJSON(p);
  const publicKeyPem = readPublicKey(args.pubKey);
  const payloadJson = JSON.stringify(envelope.payload);
  const ok = verifySignature(publicKeyPem, Buffer.from(payloadJson, "utf8"), envelope.signature);
  const currentHw = await collectHardwareSnapshot();
  const savedHw = envelope.payload.hardwareSnapshot;
  const diffs = compareHardware(savedHw, currentHw);
  if (args.json) { console.log(JSON.stringify({ signatureValid: ok, mismatches: diffs, ... })); }
  else { console.log("Signature valid:", ok); ... }
  if (!ok) process.exit(2);
  \<close>
\<close>

definition verify_body ::
  "('pub, 'priv) env \<Rightarrow> verify_args \<Rightarrow> string \<Rightarrow> error + outcome" where
  "verify_body e args p =
     (case readJSON e p of Inl err \<Rightarrow> Inl err | Inr envelope \<Rightarrow>
      case readPublicKey e (arg_pubKey args) of Inl err \<Rightarrow> Inl err | Inr publicKeyPem \<Rightarrow>
      case verify_payload_buffer envelope of Inl err \<Rightarrow> Inl err | Inr payloadBuffer \<Rightarrow>
      case verifySignature (crypt e) publicKeyPem payloadBuffer (get_prop envelope ''signature'') of
        Inl err \<Rightarrow> Inl err | Inr ok \<Rightarrow>
      case collectHardwareSnapshot e of Inl err \<Rightarrow> Inl err | Inr currentHw \<Rightarrow>
      case prop_chk (get_prop envelope ''payload'') ''hardwareSnapshot'' of
        Inl err \<Rightarrow> Inl err | Inr savedHw \<Rightarrow>
      case compareHardware savedHw currentHw of Inl err \<Rightarrow> Inl err | Inr diffs \<Rightarrow>
        Inr \<lparr>stdout = (if arg_json args
                        then report_json ok diffs (get_prop envelope ''payload'') p
                        else report_text ok diffs (get_prop envelope ''payload'') p),
             stderr = [],
             exit_code = (if ok then 0 else 2),
             written = None\<rparr>)"

text \<open>
  \<^verbatim>\<open>
  async function mainVerify(args) {
    try {
      const p = args.path || defaultFingerprintPath();
      if (!fs.existsSync(p)) { console.error("Fingerprint not found at", p); process.exit(1); }
      ...
    } catch (err) { console.error("Verify failed:", err.message); process.exit(1); }
  }
  \<close>
\<close>

definition mainVerify :: "('pub, 'priv) env \<Rightarrow> verify_args \<Rightarrow> outcome" where
  "mainVerify e args =
     (let p = or_text (arg_path args) (defaultFingerprintPath e)
      in if \<not> existsSync e p
         then \<lparr>stdout = [], stderr = [''Fingerprint not found at '' @ p], exit_code = 1,
               written = None\<rparr>
         else case verify_body e args p of
                Inl err \<Rightarrow>
                  \<lparr>stdout = [], stderr = [''Verify failed: '' @ message e err], exit_code = 1,
                   written = None\<rparr>
              | Inr result \<Rightarrow> result)"

text \<open>
  The other copy of the command, in \<^verbatim>\<open>src/index.js\<close>. It reads the public key from the
  fixed path beside the program, prints the signature line at once, and on an invalid
  signature exits before the hardware is collected. It has no \<^verbatim>\<open>try\<close>: an exception
  ends the process with its message and the code 1. The dash in the message of the
  source is not an ASCII character; it is written as a hyphen here.
  \<^verbatim>\<open>
  const envelope = await fs.readJSON(p);
  const publicKey = readPublicKey();
  const payloadJson = JSON.stringify(envelope.payload);
  const ok = verifySignature(publicKey, Buffer.from(payloadJson, "utf8"), envelope.signature);
  console.log("Signature valid:", ok);
  if (!ok) {
    console.error("Signature invalid - possible tamper or wrong public key.");
    process.exit(2);
  }
  const currentHw = await collectHardwareSnapshot();
  const savedHw = envelope.payload.hardwareSnapshot;
  const diffs = compareHardware(savedHw, currentHw);
  ...
  \<close>
\<close>

definition readPublicKey_index :: "('pub, 'priv) env \<Rightarrow> error + string" where
  "readPublicKey_index e =
     (if \<not> existsSync e (defaultPublicKeyPath e)
      then Inl (Error (''Missing public key at '' @ defaultPublicKeyPath e))
      else Inr (readFileSync e (defaultPublicKeyPath e)))"

definition uncaught :: "('pub, 'priv) env \<Rightarrow> string list \<Rightarrow> error \<Rightarrow> outcome" where
  "uncaught e printed err =
     \<lparr>stdout = printed, stderr = [message e err], exit_code = 1, written = None\<rparr>"

definition mainVerify_index :: "('pub, 'priv) env \<Rightarrow> string option \<Rightarrow> outcome" where
  "mainVerify_index e path =
     (let p = or_text path (defaultFingerprintPath e)
      in if \<not> existsSync e p
         then \<lparr>stdout = [], stderr = [''Fingerprint not found at '' @ p], exit_code = 1,
               written = None\<rparr>
         else
      case readJSON e p of Inl err \<Rightarrow> uncaught e [] err | Inr envelope \<Rightarrow>
      case readPublicKey_index e of Inl err \<Rightarrow> uncaught e [] err | Inr publicKey \<Rightarrow>
      case verify_payload_buffer envelope of Inl err \<Rightarrow> uncaught e [] err | Inr payloadBuffer \<Rightarrow>
      case verifySignature (crypt e) publicKey payloadBuffer (get_prop envelope ''signature'') of
        Inl err \<Rightarrow> uncaught e [] err | Inr ok \<Rightarrow>
      let line = ''Signature valid: '' @ bool_text ok
      in if \<not> ok
         then \<lparr>stdout = [line],
               stderr = [''Signature invalid - possible tamper or wrong public key.''],
               exit_code = 2, written = None\<rparr>
         else
      case collectHardwareSnapshot e of Inl err \<Rightarrow> uncaught e [line] err | Inr currentHw \<Rightarrow>
      case prop_chk (get_prop envelope ''payload'') ''hardwareSnapshot'' of
        Inl err \<Rightarrow> uncaught e [line] err | Inr savedHw \<Rightarrow>
      case compareHardware savedHw currentHw of
        Inl err \<Rightarrow> uncaught e [line] err
      | Inr diffs \<Rightarrow>
          \<lparr>stdout = [line] @ report_diffs diffs @ report_buyer (get_prop envelope ''payload''),
           stderr = [], exit_code = 0, written = None\<rparr>)"

subsection \<open>Dates\<close>

text \<open>
  A \<^verbatim>\<open>Date\<close> holds a time value, the milliseconds since the epoch in UTC, or is
  invalid (\<open>None\<close>). Days are counted from the epoch; the two functions below convert
  between a day number and a date of the proleptic Gregorian calendar, as
  \<^verbatim>\<open>YearFromTime\<close>, \<^verbatim>\<open>MonthFromTime\<close>, \<^verbatim>\<open>DateFromTime\<close> and \<^verbatim>\<open>MakeDay\<close> of the
  language do. Months are numbered from 1 here.
\<close>

definition msPerDay :: int where
  "msPerDay = 86400000"

definition days_from_civil :: "int \<Rightarrow> int \<Rightarrow> int \<Rightarrow> int" where
  "days_from_civil y m d =
     (let y' = (if m \<le> 2 then y - 1 else y);
          era = y' div 400;
          yoe = y' - era * 400;
          doy = (153 * (if m > 2 then m - 3 else m + 9) + 2) div 5 + d - 1;
          doe = yoe * 365 + yoe div 4 - yoe div 100 + doy
      in era * 146097 + doe - 719468)"

definition civil_from_days :: "int \<Rightarrow> int \<times> int \<times> int" where
  "civil_from_days z =
     (let z' = z + 719468;
          era = z' div 146097;
          doe = z' - era * 146097;
          yoe = (doe - doe div 1460 + doe div 36524 - doe div 146096) div 365;
          doy = doe - (365 * yoe + yoe div 4 - yoe div 100);
          mp = (5 * doy + 2) div 153;
          d = doy - (153 * mp + 2) div 5 + 1;
          m = (if mp < 10 then mp + 3 else mp - 9)
      in (if m \<le> 2 then yoe + era * 400 + 1 else yoe + era * 400, m, d))"

definition YearFromTime :: "int \<Rightarrow> int" where
  "YearFromTime t = fst (civil_from_days (t div msPerDay))"

definition MonthFromTime :: "int \<Rightarrow> int" where
  "MonthFromTime t = fst (snd (civil_from_days (t div msPerDay)))"

definition DateFromTime :: "int \<Rightarrow> int" where
  "DateFromTime t = snd (snd (civil_from_days (t div msPerDay)))"

text \<open>\<^verbatim>\<open>MakeDay\<close>: the day number of the first of the month, plus the date, minus one.\<close>

definition MakeDay :: "int \<Rightarrow> int \<Rightarrow> int \<Rightarrow> int" where
  "MakeDay year month date = days_from_civil year month 1 + date - 1"

definition TimeClip :: "int \<Rightarrow> int option" where
  "TimeClip t = (if \<bar>t\<bar> > 8640000000000000 then None else Some t)"

text \<open>\<^verbatim>\<open>getDate()\<close>: the day of the month in local time.\<close>

definition getDate :: "('pub, 'priv) env \<Rightarrow> int \<Rightarrow> int" where
  "getDate e t = DateFromTime (t + tz_offset_of_utc e t)"

text \<open>
  \<^verbatim>\<open>setDate(dt)\<close>: the time value is taken to local time, the day of the month is
  replaced there, and the new local time is taken back to UTC.
\<close>

definition setDate :: "('pub, 'priv) env \<Rightarrow> int \<Rightarrow> int \<Rightarrow> int option" where
  "setDate e t dt =
     (let local = t + tz_offset_of_utc e t;
          newDate = MakeDay (YearFromTime local) (MonthFromTime local) dt * msPerDay
                      + local mod msPerDay
      in TimeClip (newDate - tz_offset_of_local e newDate))"

definition pad :: "nat \<Rightarrow> int \<Rightarrow> string" where
  "pad n i = replicate (n - length (dec_digits i)) CHR ''0'' @ dec_digits i"

text \<open>\<^verbatim>\<open>toISOString()\<close> of a valid date; years outside 0 to 9999 have a sign and six digits.\<close>

definition toISOString :: "int \<Rightarrow> string" where
  "toISOString t =
     (let y = YearFromTime t; ms = t mod msPerDay
      in (if 0 \<le> y \<and> y \<le> 9999 then pad 4 y
          else (if y < 0 then ''-'' else ''+'') @ pad 6 \<bar>y\<bar>)
         @ ''-'' @ pad 2 (MonthFromTime t) @ ''-'' @ pad 2 (DateFromTime t)
         @ ''T'' @ pad 2 (ms div 3600000) @ '':'' @ pad 2 (ms div 60000 mod 60)
         @ '':'' @ pad 2 (ms div 1000 mod 60) @ ''.'' @ pad 3 (ms mod 1000) @ ''Z'')"

text \<open>
  \<^verbatim>\<open>new Date(text)\<close> for a calendar date \<^verbatim>\<open>YYYY-MM-DD\<close>: midnight of that day in UTC.
  The engine accepts a month from 01 to 12 and a day from 01 to 31.
\<close>

definition parse_date_only :: "string \<Rightarrow> int option" where
  "parse_date_only text =
     (if length text = 10 \<and> text ! 4 = CHR ''-'' \<and> text ! 7 = CHR ''-'' \<and>
         list_all is_digit (take 4 text) \<and> list_all is_digit (take 2 (drop 5 text)) \<and>
         list_all is_digit (drop 8 text)
      then
        (let y = digits_val (take 4 text); m = digits_val (take 2 (drop 5 text));
             d = digits_val (drop 8 text)
         in if 1 \<le> m \<and> m \<le> 12 \<and> 1 \<le> d \<and> d \<le> 31
            then Some (MakeDay y m d * msPerDay) else None)
      else None)"

definition is_date_only :: "string \<Rightarrow> bool" where
  "is_date_only text \<longleftrightarrow>
     length text = 10 \<and> text ! 4 = CHR ''-'' \<and> text ! 7 = CHR ''-'' \<and>
     list_all is_digit (take 4 text) \<and> list_all is_digit (take 2 (drop 5 text)) \<and>
     list_all is_digit (drop 8 text)"

definition new_Date :: "('pub, 'priv) env \<Rightarrow> string \<Rightarrow> int option" where
  "new_Date e text = (if is_date_only text then parse_date_only text else parse_other_date e text)"

subsection \<open>Creating a fingerprint\<close>

record create_args =
  arg_buyer :: string
  arg_purchase :: string
  arg_warrantyDays :: number
  arg_partsFile :: "string option"
  arg_privKey :: string
  arg_out :: "string option"

text \<open>
  \<^verbatim>\<open>parseInt(args.warrantyDays || 90, 10)\<close> on the number that the argument parser
  delivers: zero and \<^verbatim>\<open>NaN\<close> are falsy and give 90.
\<close>

definition warranty_days :: "number \<Rightarrow> int" where
  "warranty_days w = (case w of Fin i \<Rightarrow> if i = 0 then 90 else i | NaN \<Rightarrow> 90)"

text \<open>
  \<^verbatim>\<open>
  const expDate = new Date(purchaseDate);
  if (isNaN(expDate.getTime())) { ... process.exit(1); }
  expDate.setDate(expDate.getDate() + warrantyDays);
  ... expDate.toISOString()
  \<close>
  The result is \<open>None\<close> when the purchase date does not parse, \<open>Some (Inl RangeError)\<close>
  when the date leaves the range of time values and \<^verbatim>\<open>toISOString\<close> throws.
\<close>

definition warrantyExpires :: "('pub, 'priv) env \<Rightarrow> string \<Rightarrow> int \<Rightarrow> (error + string) option" where
  "warrantyExpires e purchaseDate warrantyDays =
     (case new_Date e purchaseDate of
        None \<Rightarrow> None
      | Some t \<Rightarrow>
          (case setDate e t (getDate e t + warrantyDays) of
             None \<Rightarrow> Some (Inl RangeError)
           | Some u \<Rightarrow> Some (Inr (toISOString u))))"

text \<open>The parts list: a parts file that cannot be read gives a warning and no parts.\<close>

definition read_parts :: "('pub, 'priv) env \<Rightarrow> string option \<Rightarrow> jsval \<times> string list" where
  "read_parts e partsFile =
     (case partsFile of
        None \<Rightarrow> (JNull, [])
      | Some f \<Rightarrow>
          if f = [] then (JNull, [])
          else (case readJSON e f of
                  Inl err \<Rightarrow> (JNull, [''Could not read partsFile: '' @ message e err])
                | Inr v \<Rightarrow> (js_or v JNull, [])))"

text \<open>
  \<^verbatim>\<open>
  const payload = canonicalize({
    meta: { app: "pc-fingerprint", createdAt: new Date().toISOString(),
            installer: os.userInfo().username },
    buyer: { name: args.buyer, purchaseDate, warrantyDays,
             warrantyExpires: expDate.toISOString() },
    parts: parts || null,
    hardwareSnapshot: hw,
  });
  \<close>
\<close>

definition create_payload ::
  "('pub, 'priv) env \<Rightarrow> create_args \<Rightarrow> jsval \<Rightarrow> jsval \<Rightarrow> string \<Rightarrow> jsval" where
  "create_payload e args hw parts expires =
     canonicalize (JObj
       [(''meta'', JObj [(''app'', JStr ''pc-fingerprint''),
                        (''createdAt'', JStr (toISOString (now e))),
                        (''installer'', JStr (username e))]),
        (''buyer'', JObj [(''name'', JStr (arg_buyer args)),
                         (''purchaseDate'', JStr (arg_purchase args)),
                         (''warrantyDays'', JNum (Fin (warranty_days (arg_warrantyDays args)))),
                         (''warrantyExpires'', JStr expires)]),
        (''parts'', parts),
        (''hardwareSnapshot'', hw)])"

definition failed :: "string list \<Rightarrow> string \<Rightarrow> int \<Rightarrow> outcome" where
  "failed warnings line code =
     \<lparr>stdout = [], stderr = warnings @ [line], exit_code = code, written = None\<rparr>"

text \<open>
  \<^verbatim>\<open>mainCreate\<close>: every exception inside its \<^verbatim>\<open>try\<close> is reported as
  \<^verbatim>\<open>Create failed:\<close> with the code 1; an unparsable purchase date exits with the code
  1, a missing private key with the code 2.
\<close>

definition mainCreate :: "('pub, 'priv) env \<Rightarrow> create_args \<Rightarrow> outcome" where
  "mainCreate e args =
     (let outPath = or_text (arg_out args) (defaultFingerprintPath e)
      in case ensureDir e outPath of
           Some err \<Rightarrow> failed [] (''Create failed: '' @ message e err) 1
         | None \<Rightarrow>
      case collectHardwareSnapshot e of
        Inl err \<Rightarrow> failed [] (''Create failed: '' @ message e err) 1
      | Inr hw \<Rightarrow>
      let (parts, warnings) = read_parts e (arg_partsFile args)
      in case warrantyExpires e (arg_purchase args) (warranty_days (arg_warrantyDays args)) of
           None \<Rightarrow> failed warnings ''Invalid --purchase date. Use YYYY-MM-DD.'' 1
         | Some (Inl err) \<Rightarrow> failed warnings (''Create failed: '' @ message e err) 1
         | Some (Inr expires) \<Rightarrow>
      let payload = create_payload e args hw parts expires;
          payloadJson = stringify payload
      in if \<not> existsSync e (arg_privKey args)
         then failed warnings (''Private key not found at '' @ arg_privKey args) 2
         else
      case buffer_from_utf8 payloadJson of
        Inl err \<Rightarrow> failed warnings (''Create failed: '' @ message e err) 1
      | Inr payloadBuffer \<Rightarrow>
      case signPayload (crypt e) (readFileSync e (arg_privKey args)) payloadBuffer of
        Inl err \<Rightarrow> failed warnings (''Create failed: '' @ message e err) 1
      | Inr signature \<Rightarrow>
      let envelope = JObj [(''signer'', JStr ''pc-fingerprint''), (''payload'', payload),
                           (''signature'', JStr signature)]
      in case writeFile e outPath of
           Some err \<Rightarrow> failed warnings (''Create failed: '' @ message e err) 1
         | None \<Rightarrow>
             \<lparr>stdout = [''Fingerprint written to '' @ outPath,
                        ''IMPORTANT: Keep the private key offline. Store only the public key with the app.''],
              stderr = warnings, exit_code = 0, written = Some (outPath, envelope)\<rparr>)"

section \<open>An example runtime\<close>

text \<open>
  The base64 decoder of Node.js: characters outside the alphabets (the standard and the
  URL-safe one) are skipped, decoding stops at the first \<^verbatim>\<open>=\<close>, and a last group of
  two or three characters gives one or two bytes.
\<close>

definition b64_value :: "char \<Rightarrow> int option" where
  "b64_value c =
     (let n = (of_char c :: int)
      in if 65 \<le> n \<and> n \<le> 90 then Some (n - 65)
         else if 97 \<le> n \<and> n \<le> 122 then Some (n - 71)
         else if 48 \<le> n \<and> n \<le> 57 then Some (n + 4)
         else if c = CHR ''+'' \<or> c = CHR ''-'' then Some 62
         else if c = CHR ''/'' \<or> c = CHR ''_'' then Some 63
         else None)"

fun b64_groups :: "int list \<Rightarrow> bytes" where
  "b64_groups (a # b # c # d # rest) =
     [a * 4 + b div 16, (b mod 16) * 16 + c div 4, (c mod 4) * 64 + d] @ b64_groups rest"
| "b64_groups [a, b, c] = [a * 4 + b div 16, (b mod 16) * 16 + c div 4]"
| "b64_groups [a, b] = [a * 4 + b div 16]"
| "b64_groups rest = []"

definition lenient_base64_decode :: "string \<Rightarrow> bytes" where
  "lenient_base64_decode text =
     b64_groups (List.map_filter b64_value (takeWhile (\<lambda>c. c \<noteq> CHR ''='') text))"

definition b64_char :: "int \<Rightarrow> char" where
  "b64_char n =
     (if n < 26 then char_of (n + 65)
      else if n < 52 then char_of (n + 71)
      else if n < 62 then char_of (n - 4)
      else if n = 62 then CHR ''+'' else CHR ''/'')"

fun plain_base64_encode :: "bytes \<Rightarrow> string" where
  "plain_base64_encode (x # y # z # rest) =
     [b64_char (x div 4), b64_char ((x mod 4) * 16 + y div 16),
      b64_char ((y mod 16) * 4 + z div 64), b64_char (z mod 64)] @ plain_base64_encode rest"
| "plain_base64_encode [x, y] =
     [b64_char (x div 4), b64_char ((x mod 4) * 16 + y div 16), b64_char ((y mod 16) * 4), CHR ''='']"
| "plain_base64_encode [x] = [b64_char (x div 4), b64_char ((x mod 4) * 16), CHR ''='', CHR ''='']"
| "plain_base64_encode [] = []"


text \<open>An example provider for concrete runs: a checksum stands in for RSA.\<close>

definition checksum :: "bytes \<Rightarrow> bytes" where
  "checksum msg =
     (let h = foldl (\<lambda>a b. (a * 31 + b) mod 65521) 7 msg
      in [h div 256, h mod 256, int (length msg) mod 256])"

definition example_crypto :: "(unit, unit) crypto" where
  "example_crypto =
     \<lparr>parse_public_key = (\<lambda>pem. if pem = ''PUBLIC KEY'' then Some () else None),
      parse_private_key = (\<lambda>pem. if pem = ''PRIVATE KEY'' then Some () else None),
      signature_ok = (\<lambda>key msg sig. sig = checksum msg),
      make_signature = (\<lambda>key msg. checksum msg),
      base64_decode = lenient_base64_decode,
      base64_encode = plain_base64_encode,
      buffer_from_other = (\<lambda>v. Inl TypeError)\<rparr>"

definition example_saved :: jsval where
  "example_saved =
     JObj [(''machineId'', JStr ''m1''),
           (''cpu'', JObj [(''brand'', JStr ''X''), (''physicalCores'', JNum (Fin 8))]),
           (''bios'', JObj [(''serial'', JNull)]),
           (''net'', JArr [JObj [(''mac'', JStr ''aa:bb'')]]),
           (''memoryGB'', JNum (Fin 16))]"

definition example_current :: jsval where
  "example_current =
     JObj [(''machineId'', JStr ''m1''),
           (''cpu'', JObj [(''brand'', JNull), (''physicalCores'', JNum (Fin 4))]),
           (''bios'', JObj []),
           (''net'', JArr [JObj [(''mac'', JStr ''aa:bb'')]]),
           (''memoryGB'', JNum (Fin 16))]"

definition example_payload :: jsval where
  "example_payload =
     JObj [(''buyer'', JObj [(''name'', JStr ''Jane Doe''), (''purchaseDate'', JStr ''2025-09-18''),
                            (''warrantyDays'', JNum (Fin 90)),
                            (''warrantyExpires'', JStr ''2025-12-17T00:00:00.000Z'')]),
           (''hardwareSnapshot'', example_saved),
           (''meta'', JObj [(''app'', JStr ''pc-fingerprint''),
                           (''createdAt'', JStr ''2025-09-18T10:00:00.000Z''),
                           (''installer'', JStr ''builder'')]),
           (''parts'', JNull)]"

definition example_envelope :: "string \<Rightarrow> jsval" where
  "example_envelope sig =
     JObj [(''signer'', JStr ''pc-fingerprint''), (''payload'', example_payload),
           (''signature'', JStr sig)]"

text \<open>
  A machine on which the fingerprint file holds the given value, the public key is at
  its default place, and the hardware provider returns the given snapshot.
\<close>

text \<open>
  Three time zones: UTC; the zone of New York in 2025, four hours behind UTC from
  9 March, 07:00 UTC, to 2 November, 06:00 UTC, and five hours behind otherwise, where a
  local time is read with the summer offset from 9 March, 03:00, to 2 November, 02:00;
  and the zone of Sydney in 2025, ten hours ahead of UTC from 5 April, 16:00 UTC, to
  4 October, 16:00 UTC, and eleven hours ahead otherwise, where a local time is read
  with the winter offset from 6 April, 03:00, to 5 October, 03:00.
\<close>

definition utc_zone :: "(int \<Rightarrow> int) \<times> (int \<Rightarrow> int)" where
  "utc_zone = ((\<lambda>t. 0), (\<lambda>t. 0))"

definition new_york_zone :: "(int \<Rightarrow> int) \<times> (int \<Rightarrow> int)" where
  "new_york_zone =
     ((\<lambda>t. if 1741503600000 \<le> t \<and> t < 1762063200000 then - 14400000 else - 18000000),
      (\<lambda>t. if 1741489200000 \<le> t \<and> t < 1762048800000 then - 14400000 else - 18000000))"

definition sydney_zone :: "(int \<Rightarrow> int) \<times> (int \<Rightarrow> int)" where
  "sydney_zone =
     ((\<lambda>t. if 1743868800000 \<le> t \<and> t < 1759593600000 then 36000000 else 39600000),
      (\<lambda>t. if 1743908400000 \<le> t \<and> t < 1759633200000 then 36000000 else 39600000))"

definition example_env_in ::
  "(int \<Rightarrow> int) \<times> (int \<Rightarrow> int) \<Rightarrow> jsval \<Rightarrow> jsval \<Rightarrow> (unit, unit) env" where
  "example_env_in zone file hw =
     \<lparr>crypt = example_crypto,
      existsSync = (\<lambda>p. p = ''/var/lib/pcfingerprinter/fingerprint.json'' \<or>
                         p = ''/app/assets/public.pem'' \<or> p = ''/keys/private.pem''),
      readJSON = (\<lambda>p. if p = ''/var/lib/pcfingerprinter/fingerprint.json''
                       then Inr file else Inl (Error ''ENOENT'')),
      readFileSync = (\<lambda>p. if p = ''/keys/private.pem'' then ''PRIVATE KEY'' else ''PUBLIC KEY''),
      defaultFingerprintPath = ''/var/lib/pcfingerprinter/fingerprint.json'',
      defaultPublicKeyPath = ''/app/assets/public.pem'',
      env_PC_FP_PUBLIC_KEY = None,
      collectHardwareSnapshot = Inr hw,
      message = (\<lambda>err. case err of Error m \<Rightarrow> m | _ \<Rightarrow> ''exception''),
      ensureDir = (\<lambda>p. None),
      writeFile = (\<lambda>p. None),
      username = ''builder'',
      now = 1758189600000,
      tz_offset_of_utc = fst zone,
      tz_offset_of_local = snd zone,
      parse_other_date = (\<lambda>text. None)\<rparr>"

definition example_env :: "jsval \<Rightarrow> jsval \<Rightarrow> (unit, unit) env" where
  "example_env file hw = example_env_in utc_zone file hw"

definition example_create_args :: create_args where
  "example_create_args =
     \<lparr>arg_buyer = ''Jane Doe'', arg_purchase = ''2025-09-18'', arg_warrantyDays = Fin 90,
      arg_partsFile = None, arg_privKey = ''/keys/private.pem'', arg_out = None\<rparr>"




section \<open>Properties of the canonical encoder\<close>

subsection \<open>Assignments to a plain object\<close>

lemma insert_index_keys: "fst ` set (insert_index k v ps) = insert k (fst ` set ps)"
  by (induction k v ps rule: insert_index.induct) auto

lemma insert_index_distinct:
  "k \<notin> fst ` set ps \<Longrightarrow> distinct (map fst ps) \<Longrightarrow> distinct (map fst (insert_index k v ps))"
  by (induction k v ps rule: insert_index.induct) (auto simp: insert_index_keys)

lemma insert_index_map_of:
  "k \<notin> fst ` set ps \<Longrightarrow> map_of (insert_index k v ps) = (map_of ps)(k \<mapsto> v)"
  by (induction k v ps rule: insert_index.induct) (auto simp: fun_upd_twist)

lemma map_of_snoc:
  "k \<notin> fst ` set ps \<Longrightarrow> map_of (ps @ [(k, v)]) = (map_of ps)(k \<mapsto> v)"
  by (induction ps) (auto simp: fun_upd_twist)
  
lemma put_keys:
  "fst ` set (put k v ps) = (if k = ''__proto__'' then fst ` set ps else insert k (fst ` set ps))"
  by (auto simp: put_def insert_index_keys dom_update)

lemma put_distinct: "distinct (map fst ps) \<Longrightarrow> distinct (map fst (put k v ps))"
  by (auto simp: put_def insert_index_distinct distinct_update)

lemma put_map_of:
  "map_of (put k v ps) = (if k = ''__proto__'' then map_of ps else (map_of ps)(k \<mapsto> v))"
  unfolding put_def
  by (simp add: insert_index_map_of update_conv' map_of_snoc del: map_of_append)

lemma put_same: "map_of ps k = Some v \<Longrightarrow> put k v ps = ps"
  by (auto simp: put_def update_triv map_of_eq_None_iff[symmetric] simp del: map_of_eq_None_iff)

lemma put_put: "put k v (put k v ps) = put k v ps"
proof (cases "k = ''__proto__''")
  case True
  then show ?thesis by (simp add: put_def)
next
  case False
  then have "map_of (put k v ps) k = Some v" by (simp add: put_map_of)
  then show ?thesis by (rule put_same)
qed

lemma fold_put_keys:
  "fst ` set (foldl (\<lambda>out k. put k (g k) out) ps ks) = fst ` set ps \<union> (set ks - {''__proto__''})"
  by (induction ks arbitrary: ps) (auto simp: put_keys)

lemma fold_put_distinct:
  "distinct (map fst ps) \<Longrightarrow> distinct (map fst (foldl (\<lambda>out k. put k (g k) out) ps ks))"
  by (induction ks arbitrary: ps) (auto simp: put_distinct)

lemma fold_put_map_of:
  "k \<in> set ks \<Longrightarrow> k \<noteq> ''__proto__'' \<Longrightarrow>
   map_of (foldl (\<lambda>out k. put k (g k) out) ps ks) k = Some (g k)"
proof (induction ks arbitrary: ps rule: rev_induct)
  case Nil
  then show ?case by simp
next
  case (snoc x xs)
  then show ?case by (auto simp: put_map_of)
qed

lemma fold_put_remdups_adj:
  "foldl (\<lambda>out k. put k (g k) out) ps (remdups_adj ks) = foldl (\<lambda>out k. put k (g k) out) ps ks"
proof (induction ks arbitrary: ps rule: remdups_adj.induct)
  case (3 x y xs)
  then show ?case by (auto simp: put_put)
qed simp_all

lemma fold_put_filter:
  "foldl (\<lambda>out k. put k (g k) out) ps (filter (\<lambda>k. k \<noteq> ''__proto__'') ks)
     = foldl (\<lambda>out k. put k (g k) out) ps ks"
  by (induction ks arbitrary: ps) (auto simp: put_def)

lemma fold_put_cong:
  "(\<And>k. k \<in> set ks \<Longrightarrow> g k = h k) \<Longrightarrow>
   foldl (\<lambda>out k. put k (g k) out) ps ks = foldl (\<lambda>out k. put k (h k) out) ps ks"
  by (rule foldl_cong) auto

lemma sorted_remdups_adj_distinct:
  fixes xs :: "'a::linorder list"
  shows "sorted xs \<Longrightarrow> distinct (remdups_adj xs)"
proof (induction xs rule: remdups_adj.induct)
  case (3 x y xs)
  then show ?case
    by (cases "x = y") (auto simp: )
qed simp_all


lemma canonicalize_idem: "canonicalize (canonicalize v) = canonicalize v"
proof (induction v rule: canonicalize.induct)
  case (7 ps)
  define ks where "ks = sort (map fst ps)"
  define g where "g = (\<lambda>k. canonicalize (lookup ps k))"
  define out where "out = foldl (\<lambda>out k. put k (g k) out) [] ks"
  define ks' where "ks' = remdups_adj (filter (\<lambda>k. k \<noteq> ''__proto__'') ks)"
  have IH: "canonicalize (g k) = g k" if "k \<in> set ks" for k
    using 7 that by (simp add: ks_def g_def)
  have canon: "canonicalize (JObj ps) = JObj out"
    by (simp add: out_def g_def ks_def)
  have sorted_ks: "sorted ks" by (simp add: ks_def)
  have sorted': "sorted ks'"
    unfolding ks'_def using sorted_ks sorted_filter [of "\<lambda>x. x" ks] 
    by (simp add: sorted_remdups_adj)
  have distinct': "distinct ks'"
    unfolding ks'_def using sorted_ks sorted_filter [of "\<lambda>x. x" ks] 
    by (simp add: sorted_remdups_adj_distinct)
  have set': "set ks' = set ks - {''__proto__''}"
    by (auto simp: ks'_def)
  have keys_out: "set (map fst out) = set ks'"
    using fold_put_keys [of g "[]" ks] by (simp add: out_def set')
  have dist_out: "distinct (map fst out)"
    unfolding out_def by (rule fold_put_distinct) simp
  have sort_out: "sort (map fst out) = ks'"
    by (rule sorted_distinct_set_unique) (use keys_out dist_out sorted' distinct' in simp_all)
  have val: "lookup out k = g k" if "k \<in> set ks'" for k
    using that fold_put_map_of [of k ks g "[]"] by (simp add: out_def set' lookup_def)
  have "canonicalize (JObj out) = JObj (foldl (\<lambda>o' k. put k (canonicalize (lookup out k)) o') [] ks')"
    by (simp add: sort_out)
  also have "foldl (\<lambda>o' k. put k (canonicalize (lookup out k)) o') [] ks'
      = foldl (\<lambda>o' k. put k (g k) o') [] ks'"
    by (rule fold_put_cong) (simp add: val IH set')
  also have "\<dots> = out"
    by (simp add: ks'_def out_def fold_put_remdups_adj fold_put_filter)
  finally have "canonicalize (JObj out) = JObj out" by simp
  then show ?case by (simp only: canon)
qed simp_all

subsection \<open>Order insensitivity\<close>




subsection \<open>The claims about canonicalization\<close>

text \<open>
  C6. Canonicalization is idempotent: canonicalizing a canonical form changes nothing,
  for every structured value.
\<close>

theorem canonicalize_idempotent:
  "canonicalize (canonicalize x) = canonicalize x"
  by (rule canonicalize_idem)

theorem canonicalize_idempotent_witness:
  "canonicalize (canonicalize
     (JObj [(''meta'', JObj [(''createdAt'', JStr ''t''), (''app'', JStr ''pc-fingerprint'')]),
            (''buyer'', JObj [(''name'', JStr ''Jane Doe''), (''warrantyDays'', JNum (Fin 90))]),
            (''parts'', JArr [JObj [(''serial'', JStr ''GPU123456''), (''item'', JStr ''GPU'')]])]))
   = JObj [(''buyer'', JObj [(''name'', JStr ''Jane Doe''), (''warrantyDays'', JNum (Fin 90))]),
           (''meta'', JObj [(''app'', JStr ''pc-fingerprint''), (''createdAt'', JStr ''t'')]),
           (''parts'', JArr [JObj [(''item'', JStr ''GPU''), (''serial'', JStr ''GPU123456'')]])]"
  by (subst canonicalize_idempotent) code_simp




section \<open>Properties of the hardware comparator\<close>









lemma compareHardware_missing_aux:
  "saved = JNull \<or> saved = JUndefined \<or> current = JNull \<or> current = JUndefined \<Longrightarrow>
   compareHardware saved current = Inr [''Missing snapshot or current data'']"
  by (auto simp: compareHardware_def)

text \<open>
  C10. When either argument of the comparison is \<^verbatim>\<open>null\<close> or \<^verbatim>\<open>undefined\<close>, the result
  is the one-element list \<^verbatim>\<open>["Missing snapshot or current data"]\<close> and no field is
  checked.
\<close>

theorem compareHardware_missing:
  "saved = JNull \<or> saved = JUndefined \<or> current = JNull \<or> current = JUndefined \<Longrightarrow>
   compareHardware saved current = Inr [''Missing snapshot or current data'']"
  by (rule compareHardware_missing_aux)

theorem compareHardware_missing_witness:
  "compareHardware JNull (JObj [(''machineId'', JStr ''m1'')])
     = Inr [''Missing snapshot or current data''] \<and>
   compareHardware (JObj [(''machineId'', JStr ''m1'')]) JUndefined
     = Inr [''Missing snapshot or current data'']"
  using compareHardware_missing [of JNull "JObj [(''machineId'', JStr ''m1'')]"]
    compareHardware_missing [of "JObj [(''machineId'', JStr ''m1'')]" JUndefined]
  by simp



subsection \<open>The per-field policy\<close>




subsection \<open>The comparison of the MAC addresses\<close>



























section \<open>Properties of the verifier\<close>




section \<open>Properties of the commands\<close>







text \<open>
  In the command with the \<^verbatim>\<open>--json\<close> and \<^verbatim>\<open>--pubKey\<close> options, once the envelope, the
  key and the hardware have been read, the report carries the validity of the
  signature and the list of mismatches together, whatever the validity; only the exit
  code tells the two outcomes apart.
\<close>

lemma mainVerify_reports_both:
  assumes "existsSync e (or_text (arg_path args) (defaultFingerprintPath e))"
    and "readJSON e (or_text (arg_path args) (defaultFingerprintPath e)) = Inr envelope"
    and "readPublicKey e (arg_pubKey args) = Inr publicKeyPem"
    and "verify_payload_buffer envelope = Inr payloadBuffer"
    and "verifySignature (crypt e) publicKeyPem payloadBuffer (get_prop envelope ''signature'') = Inr ok"
    and "collectHardwareSnapshot e = Inr currentHw"
    and "compareHardware (get_prop (get_prop envelope ''payload'') ''hardwareSnapshot'') currentHw
           = Inr diffs"
    and "get_prop envelope ''payload'' \<noteq> JNull"
  shows "mainVerify e args =
    \<lparr>stdout =
       (if arg_json args
        then report_json ok diffs (get_prop envelope ''payload'')
               (or_text (arg_path args) (defaultFingerprintPath e))
        else report_text ok diffs (get_prop envelope ''payload'')
               (or_text (arg_path args) (defaultFingerprintPath e))),
     stderr = [], exit_code = (if ok then 0 else 2), written = None\<rparr>"
proof -
  from assms(4,8) have "prop_chk (get_prop envelope ''payload'') ''hardwareSnapshot''
      = Inr (get_prop (get_prop envelope ''payload'') ''hardwareSnapshot'')"
    by (auto simp: verify_payload_buffer_def prop_chk_def buffer_from_utf8_def
        split: if_splits option.splits)
  with assms show ?thesis
    by (simp add: mainVerify_def verify_body_def Let_def)
qed

lemma mainVerify_index_invalid:
  assumes "existsSync e (or_text path (defaultFingerprintPath e))"
    and "readJSON e (or_text path (defaultFingerprintPath e)) = Inr envelope"
    and "readPublicKey_index e = Inr publicKey"
    and "verify_payload_buffer envelope = Inr payloadBuffer"
    and "verifySignature (crypt e) publicKey payloadBuffer (get_prop envelope ''signature'') = Inr False"
  shows "mainVerify_index e path =
    \<lparr>stdout = [''Signature valid: false''],
     stderr = [''Signature invalid - possible tamper or wrong public key.''],
     exit_code = 2, written = None\<rparr>"
  using assms by (simp add: mainVerify_index_def Let_def bool_text_def)

text \<open>
  C2. An invalid signature must not suppress the hardware comparison. The command with
  the \<^verbatim>\<open>--json\<close> option reports both, as the lemma above shows for every envelope. The
  copy of the command in \<^verbatim>\<open>src/index.js\<close> does otherwise: on an invalid signature it
  exits with the code 2 before the hardware is collected, and no comparison is
  reported. On the example envelope with a signature that does not match, and hardware
  that differs in two fields, it prints the signature line only, where the other
  command prints the signature line and the two mismatches.
\<close>

theorem mainVerify_index_suppresses_comparison:
  "mainVerify_index (example_env (example_envelope ''AAAA'') example_current) None =
     \<lparr>stdout = [''Signature valid: false''],
      stderr = [''Signature invalid - possible tamper or wrong public key.''],
      exit_code = 2, written = None\<rparr> \<and>
   mainVerify (example_env (example_envelope ''AAAA'') example_current)
       \<lparr>arg_path = None, arg_pubKey = None, arg_json = False\<rparr> =
     \<lparr>stdout =
        [''Signature valid: false'', CHR 0x0A # ''Hardware comparison summary:'',
         ''Total mismatches: 2'', ''- cpu.brand changed'',
         ''- cpu.physicalCores: saved=8 current=4'', CHR 0x0A # ''Buyer: Jane Doe'',
         ''Purchase date: 2025-09-18'', ''Warranty expires: 2025-12-17T00:00:00.000Z'',
         CHR 0x0A # ''Path: /var/lib/pcfingerprinter/fingerprint.json''],
      stderr = [], exit_code = 2, written = None\<rparr>"
  by code_simp

text \<open>
  C4. The expiry is computed in local time: \<^verbatim>\<open>new Date("2025-09-18")\<close> is midnight in
  UTC, \<^verbatim>\<open>getDate\<close> and \<^verbatim>\<open>setDate\<close> read and set the day of the month of the local
  date, and \<^verbatim>\<open>toISOString\<close> prints the result in UTC. In UTC the purchase date
  2025-09-18 with 90 warranty days gives \<^verbatim>\<open>2025-12-17T00:00:00.000Z\<close>. In the zone of
  New York, where daylight saving time ends between the two dates, it gives
  \<^verbatim>\<open>2025-12-17T01:00:00.000Z\<close>, and in the zone of Sydney, where it begins between
  them, \<^verbatim>\<open>2025-12-16T23:00:00.000Z\<close>. Both copies of the program compute the expiry
  with the same three statements.
\<close>

theorem warrantyExpires_time_zone:
  "warrantyExpires (example_env_in new_york_zone file hw) ''2025-09-18'' 90
     = Some (Inr ''2025-12-17T01:00:00.000Z'') \<and>
   warrantyExpires (example_env_in sydney_zone file hw) ''2025-09-18'' 90
     = Some (Inr ''2025-12-16T23:00:00.000Z'') \<and>
   warrantyExpires (example_env_in utc_zone file hw) ''2025-09-18'' 90
     = Some (Inr ''2025-12-17T00:00:00.000Z'') \<and>
   map_option (\<lambda>(p, envelope).
       get_prop (get_prop (get_prop envelope ''payload'') ''buyer'') ''warrantyExpires'')
     (written (mainCreate (example_env_in new_york_zone JNull example_saved) example_create_args))
     = Some (JStr ''2025-12-17T01:00:00.000Z'')"
  by code_simp

end
